theory Spec2Isabelle
  imports Complex_Main "HOL-Library.Sublist"
begin

section \<open>Strings\<close>

text \<open>
  JavaScript strings are modelled as \<^typ>\<open>string\<close>. The three string operations the
  client relies on are \<^verbatim>\<open>toLowerCase\<close>, \<^verbatim>\<open>includes\<close> and \<^verbatim>\<open>trim\<close>.
  Lower-casing is modelled on the ASCII letters (\<^verbatim>\<open>A\<close>..\<^verbatim>\<open>Z\<close> are mapped to
  \<^verbatim>\<open>a\<close>..\<^verbatim>\<open>z\<close>, every other character is left alone); the theorems about the
  search only use that the same function is applied to the query and to the searched
  fields, never which letters it folds.
\<close>

definition lower_char :: "char \<Rightarrow> char" where
  "lower_char c =
     (let n = (of_char c :: nat)
      in if 65 \<le> n \<and> n \<le> 90 then char_of (n + 32) else c)"

definition toLowerCase :: "string \<Rightarrow> string" where
  "toLowerCase s = map lower_char s"

text \<open>
  \<^verbatim>\<open>s.includes(q)\<close>: does \<open>q\<close> occur in \<open>s\<close> at some position, as a contiguous
  run of characters. The empty string occurs in every string.
\<close>

fun str_includes :: "string \<Rightarrow> string \<Rightarrow> bool" where
  "str_includes [] q = (q = [])"
| "str_includes (c # s) q = (prefix q (c # s) \<or> str_includes s q)"

text \<open>\<^verbatim>\<open>s.trim()\<close> removes white space at both ends.\<close>

definition is_space :: "char \<Rightarrow> bool" where
  "is_space c = ((of_char c :: nat) \<in> {9, 10, 11, 12, 13, 32})"

definition trim :: "string \<Rightarrow> string" where
  "trim s = rev (dropWhile is_space (rev (dropWhile is_space s)))"

text \<open>The decimal rendering of a number inside a template literal.\<close>

definition digit_char :: "nat \<Rightarrow> char" where
  "digit_char d = char_of (48 + d)"

function show_nat :: "nat \<Rightarrow> string" where
  "show_nat n = (if n < 10 then [digit_char n] else show_nat (n div 10) @ [digit_char (n mod 10)])"
  by pat_completeness auto
termination
  by (relation "measure id") auto

declare show_nat.simps [simp del]

section \<open>Data model (types.ts)\<close>

datatype ContentType = heading1 | heading2 | blockquote | text_item

record LifelogContentItem =
  content :: string
  item_type :: ContentType
  item_startTime :: "string option"
  item_endTime :: "string option"
  startOffsetMs :: "real option"
  endOffsetMs :: "real option"
  speakerName :: "string option"

record LifelogEntry =
  entry_id :: string
  title :: string
  startTime :: string
  endTime :: string
  contents :: "LifelogContentItem list"
  markdown :: "string option"
  isStarred :: bool
  updatedAt :: "string option"

datatype SortDirection = asc | desc

record ListLifelogsParams =
  date :: "string option"
  timezone :: "string option"
  start_time :: "string option"
  end_time :: "string option"
  cursor :: "string option"
  sort_direction :: "SortDirection option"
  limit :: real

text \<open>
  \<open>ListLifelogsResponse\<close> is \<^verbatim>\<open>{data: {lifelogs: Entry[]}, meta?: {lifelogs: {count}}}\<close>:
  \<open>lifelogs\<close> is the path \<^verbatim>\<open>data.lifelogs\<close>, and \<open>meta\<close>, when present, holds the
  number at \<^verbatim>\<open>meta.lifelogs.count\<close>.
\<close>

record ListLifelogsResponse =
  lifelogs :: "LifelogEntry list"
  meta :: "real option"

text \<open>\<open>GetLifelogResponse\<close> is \<^verbatim>\<open>{data: {lifelog: Entry}}\<close>.\<close>

record GetLifelogResponse =
  lifelog :: LifelogEntry

record SearchLifelogsParams =
  query :: string
  date_from :: "string option"
  date_to :: "string option"
  search_timezone :: "string option"
  search_cursor :: "string option"
  search_limit :: real

record LimitlessConfig =
  apiKey :: "string option"
  baseUrl :: string

section \<open>The HTTP client and what it can throw\<close>

text \<open>
  \<open>axios.create\<close> returns an instance that holds the base URL, the headers and the
  timeout; every request made through it carries them.
\<close>

record AxiosInstance =
  baseURL :: string
  headers :: "(string \<times> string) list"
  timeout :: nat

datatype request = Get AxiosInstance string "ListLifelogsParams option"

text \<open>
  What a rejected request throws. An axios error has the transport's own message and,
  when the server answered, a response with a status and a body; of the body only the
  \<^verbatim>\<open>message\<close> field is read (\<open>None\<close> when the body has none). Anything else thrown
  is either an \<^verbatim>\<open>Error\<close> object with its message, or some other value, kept as its
  \<^verbatim>\<open>String(...)\<close> rendering.
\<close>

record AxiosResponse =
  status :: nat
  data_message :: "string option"

datatype thrown =
    AxiosError "AxiosResponse option" string
  | JsError string
  | NonError string

text \<open>
  The errors of the client are plain \<^verbatim>\<open>Error\<close> objects with a message.
  \<open>ValidationError\<close> is the rejection of a tool call whose arguments do not parse
  against the tool's declared schema; it names the first offending argument.
\<close>

datatype error = Error string | ValidationError string

text \<open>
  An operation yields the requests it sent, in order, and either an error or a value.
\<close>

type_synonym 'a io = "request list \<times> (error + 'a)"

record LimitlessClient =
  api :: AxiosInstance

section \<open>LimitlessClient (client.ts)\<close>

text \<open>\<^verbatim>\<open>a || b\<close> on optional strings: \<open>a\<close> unless it is undefined or empty.\<close>

definition truthy :: "string option \<Rightarrow> bool" where
  "truthy v = (case v of None \<Rightarrow> False | Some s \<Rightarrow> s \<noteq> [])"

definition or_else :: "string option \<Rightarrow> string option \<Rightarrow> string option" where
  "or_else a b = (if truthy a then a else b)"

definition api_key_required :: string where
  "api_key_required =
     ''Limitless API key is required. Provide it via config or set LIMITLESS_API_KEY environment variable. '' @
     ''Get your API key from https://www.limitless.ai/developers''"

text \<open>
  The constructor; \<open>env\<close> is the value of \<^verbatim>\<open>process.env.LIMITLESS_API_KEY\<close>.
\<close>

definition new_LimitlessClient :: "LimitlessConfig \<Rightarrow> string option \<Rightarrow> error + LimitlessClient" where
  "new_LimitlessClient config env =
     (case or_else (apiKey config) env of
        None \<Rightarrow> Inl (Error api_key_required)
      | Some k \<Rightarrow>
          if k = [] \<or> trim k = [] then Inl (Error api_key_required)
          else Inr \<lparr>api = \<lparr>baseURL = (if baseUrl config \<noteq> [] then baseUrl config
                                       else ''https://api.limitless.ai''),
                            headers = [(''X-API-Key'', k), (''Content-Type'', ''application/json'')],
                            timeout = 30000\<rparr>\<rparr>)"

text \<open>
  \<open>handleRequest\<close> awaits the request and turns whatever it throws into an \<^verbatim>\<open>Error\<close>.
\<close>

definition handleRequest :: "thrown + 'a \<Rightarrow> error + 'a" where
  "handleRequest r =
     (case r of
        Inr d \<Rightarrow> Inr d
      | Inl (AxiosError resp msg) \<Rightarrow>
          (let message = (case or_else (case resp of None \<Rightarrow> None | Some rs \<Rightarrow> data_message rs) (Some msg) of
                            Some m \<Rightarrow> m | None \<Rightarrow> msg);
               status_text = (case resp of
                                None \<Rightarrow> ''unknown''
                              | Some rs \<Rightarrow> if status rs = 0 then ''unknown'' else show_nat (status rs))
           in Inl (Error (''Limitless API error ('' @ status_text @ ''): '' @ message)))
      | Inl (JsError msg) \<Rightarrow> Inl (Error (''Limitless API error: '' @ msg))
      | Inl (NonError s) \<Rightarrow> Inl (Error (''Limitless API error: '' @ s)))"

text \<open>
  The remote API is a function from the request to what the request resolves to or
  throws; \<open>api_get\<close> sends one request.
\<close>

definition api_get :: "(request \<Rightarrow> thrown + 'a) \<Rightarrow> request \<Rightarrow> request list \<times> (thrown + 'a)" where
  "api_get remote rq = ([rq], remote rq)"

definition getLifelogs ::
  "LimitlessClient \<Rightarrow> (request \<Rightarrow> thrown + ListLifelogsResponse) \<Rightarrow> ListLifelogsParams \<Rightarrow> ListLifelogsResponse io" where
  "getLifelogs this remote params =
     (let (sent, r) = api_get remote (Get (api this) ''/v1/lifelogs'' (Some params))
      in (sent, handleRequest r))"

text \<open>Called without parameters, \<open>getLifelogs\<close> takes \<^verbatim>\<open>{ limit: 10 }\<close>.\<close>

definition default_list_params :: ListLifelogsParams where
  "default_list_params =
     \<lparr>date = None, timezone = None, start_time = None, end_time = None, cursor = None,
      sort_direction = None, limit = 10\<rparr>"

definition getLifelog ::
  "LimitlessClient \<Rightarrow> (request \<Rightarrow> thrown + GetLifelogResponse) \<Rightarrow> string \<Rightarrow> LifelogEntry io" where
  "getLifelog this remote lifelogId =
     (let (sent, r) = api_get remote (Get (api this) (''/v1/lifelogs/'' @ lifelogId) None)
      in (sent, case handleRequest r of Inl e \<Rightarrow> Inl e | Inr response \<Rightarrow> Inr (lifelog response)))"

text \<open>The filter callback of \<open>searchLifelogs\<close>; \<open>q\<close> is the lower-cased query.\<close>

definition entry_matches :: "string \<Rightarrow> LifelogEntry \<Rightarrow> bool" where
  "entry_matches q entry =
     (if str_includes (toLowerCase (title entry)) q then True
      else if (case markdown entry of None \<Rightarrow> False | Some m \<Rightarrow> str_includes (toLowerCase m) q) then True
      else list_ex (\<lambda>item. str_includes (toLowerCase (content item)) q) (contents entry))"

definition search_list_params :: "SearchLifelogsParams \<Rightarrow> ListLifelogsParams" where
  "search_list_params params =
     \<lparr>date = date_from params, timezone = None, start_time = None, end_time = None,
      cursor = search_cursor params, sort_direction = None, limit = search_limit params\<rparr>"

definition searchLifelogs ::
  "LimitlessClient \<Rightarrow> (request \<Rightarrow> thrown + ListLifelogsResponse) \<Rightarrow> SearchLifelogsParams \<Rightarrow> ListLifelogsResponse io" where
  "searchLifelogs this remote params =
     (case getLifelogs this remote (search_list_params params) of
        (sent, Inl e) \<Rightarrow> (sent, Inl e)
      | (sent, Inr allEntries) \<Rightarrow>
          (let q = toLowerCase (query params);
               filteredEntries = filter (entry_matches q) (lifelogs allEntries)
           in (sent, Inr \<lparr>lifelogs = filteredEntries, meta = meta allEntries\<rparr>)))"

section \<open>The tools (registerLimitlessTools)\<close>

text \<open>
  A tool is registered with a schema for its arguments and a handler. A call carries a
  JSON object; the MCP server parses the arguments against the schema first, and runs the
  handler only on arguments that parse. The handlers call the client and then format the
  answer as text; the formatting is left out here, a tool call yields what the client
  returned.
\<close>

datatype jsv = JUndefined | JNull | JBool bool | JNum real | JStr string

text \<open>\<^verbatim>\<open>z.string().optional()\<close>\<close>

definition is_optional_string :: "jsv \<Rightarrow> bool" where
  "is_optional_string v = (case v of JUndefined \<Rightarrow> True | JStr s \<Rightarrow> True | _ \<Rightarrow> False)"

definition the_optional_string :: "jsv \<Rightarrow> string option" where
  "the_optional_string v = (case v of JStr s \<Rightarrow> Some s | _ \<Rightarrow> None)"

text \<open>\<^verbatim>\<open>z.string().min(1)\<close>\<close>

definition is_string_min1 :: "jsv \<Rightarrow> bool" where
  "is_string_min1 v = (case v of JStr s \<Rightarrow> 1 \<le> length s | _ \<Rightarrow> False)"

definition the_string :: "jsv \<Rightarrow> string" where
  "the_string v = (case v of JStr s \<Rightarrow> s | _ \<Rightarrow> [])"

text \<open>\<^verbatim>\<open>z.enum(["asc", "desc"]).optional()\<close>\<close>

definition is_optional_sort_direction :: "jsv \<Rightarrow> bool" where
  "is_optional_sort_direction v =
     (case v of JUndefined \<Rightarrow> True | JStr s \<Rightarrow> s = ''asc'' \<or> s = ''desc'' | _ \<Rightarrow> False)"

definition the_optional_sort_direction :: "jsv \<Rightarrow> SortDirection option" where
  "the_optional_sort_direction v =
     (case v of JStr s \<Rightarrow> if s = ''asc'' then Some asc else if s = ''desc'' then Some desc else None
              | _ \<Rightarrow> None)"

text \<open>\<^verbatim>\<open>z.number().min(1).max(10).optional().default(10)\<close>\<close>

definition is_limit :: "jsv \<Rightarrow> bool" where
  "is_limit v = (case v of JUndefined \<Rightarrow> True | JNum x \<Rightarrow> 1 \<le> x \<and> x \<le> 10 | _ \<Rightarrow> False)"

definition the_limit :: "jsv \<Rightarrow> real" where
  "the_limit v = (case v of JNum x \<Rightarrow> x | _ \<Rightarrow> 10)"

text \<open>
  Parsing an object against a schema: the keys whose values do not parse are the issues;
  with no issue the parsed parameters are handed to the handler.
\<close>

definition issues :: "(string \<times> (jsv \<Rightarrow> bool)) list \<Rightarrow> (string \<Rightarrow> jsv) \<Rightarrow> string list" where
  "issues schema args = map fst (filter (\<lambda>(k, ok). \<not> ok (args k)) schema)"

definition getLifelogs_schema :: "(string \<times> (jsv \<Rightarrow> bool)) list" where
  "getLifelogs_schema =
     [(''date'', is_optional_string), (''timezone'', is_optional_string),
      (''start_time'', is_optional_string), (''end_time'', is_optional_string),
      (''cursor'', is_optional_string), (''sort_direction'', is_optional_sort_direction),
      (''limit'', is_limit)]"

definition getLifelogs_tool ::
  "LimitlessClient \<Rightarrow> (request \<Rightarrow> thrown + ListLifelogsResponse) \<Rightarrow> (string \<Rightarrow> jsv) \<Rightarrow> ListLifelogsResponse io" where
  "getLifelogs_tool this remote args =
     (let bad = issues getLifelogs_schema args
      in if bad \<noteq> [] then ([], Inl (ValidationError (hd bad)))
         else getLifelogs this remote
                \<lparr>date = the_optional_string (args ''date''),
                 timezone = the_optional_string (args ''timezone''),
                 start_time = the_optional_string (args ''start_time''),
                 end_time = the_optional_string (args ''end_time''),
                 cursor = the_optional_string (args ''cursor''),
                 sort_direction = the_optional_sort_direction (args ''sort_direction''),
                 limit = the_limit (args ''limit'')\<rparr>)"

definition getLifelogEntry_schema :: "(string \<times> (jsv \<Rightarrow> bool)) list" where
  "getLifelogEntry_schema = [(''lifelog_id'', is_string_min1)]"

definition getLifelogEntry_tool ::
  "LimitlessClient \<Rightarrow> (request \<Rightarrow> thrown + GetLifelogResponse) \<Rightarrow> (string \<Rightarrow> jsv) \<Rightarrow> LifelogEntry io" where
  "getLifelogEntry_tool this remote args =
     (let bad = issues getLifelogEntry_schema args
      in if bad \<noteq> [] then ([], Inl (ValidationError (hd bad)))
         else getLifelog this remote (the_string (args ''lifelog_id'')))"

definition searchLifelogs_schema :: "(string \<times> (jsv \<Rightarrow> bool)) list" where
  "searchLifelogs_schema =
     [(''query'', is_string_min1), (''date_from'', is_optional_string),
      (''date_to'', is_optional_string), (''timezone'', is_optional_string),
      (''cursor'', is_optional_string), (''limit'', is_limit)]"

definition searchLifelogs_tool ::
  "LimitlessClient \<Rightarrow> (request \<Rightarrow> thrown + ListLifelogsResponse) \<Rightarrow> (string \<Rightarrow> jsv) \<Rightarrow> ListLifelogsResponse io" where
  "searchLifelogs_tool this remote args =
     (let bad = issues searchLifelogs_schema args
      in if bad \<noteq> [] then ([], Inl (ValidationError (hd bad)))
         else searchLifelogs this remote
                \<lparr>query = the_string (args ''query''),
                 date_from = the_optional_string (args ''date_from''),
                 date_to = the_optional_string (args ''date_to''),
                 search_timezone = the_optional_string (args ''timezone''),
                 search_cursor = the_optional_string (args ''cursor''),
                 search_limit = the_limit (args ''limit'')\<rparr>)"

section \<open>The search predicate as the specification words it\<close>

text \<open>
  An entry matches a query when the lower-cased query is a substring of the lower-cased
  title, or of the lower-cased markdown when the entry has one, or of the lower-cased
  content of one of its content items. A substring is a contiguous run:
  \<^term>\<open>sublist q s\<close> says that \<open>s = ps @ q @ ss\<close> for some \<open>ps\<close> and \<open>ss\<close>.
\<close>

definition is_match :: "string \<Rightarrow> LifelogEntry \<Rightarrow> bool" where
  "is_match q entry \<longleftrightarrow>
     sublist (toLowerCase q) (toLowerCase (title entry))
   \<or> (\<exists>m. markdown entry = Some m \<and> sublist (toLowerCase q) (toLowerCase m))
   \<or> (\<exists>item \<in> set (contents entry). sublist (toLowerCase q) (toLowerCase (content item)))"

section \<open>A page to run the operations on\<close>

definition example_client :: LimitlessClient where
  "example_client =
     \<lparr>api = \<lparr>baseURL = ''https://api.limitless.ai'',
             headers = [(''X-API-Key'', ''sk-test''), (''Content-Type'', ''application/json'')],
             timeout = 30000\<rparr>\<rparr>"

definition meeting_entry :: LifelogEntry where
  "meeting_entry =
     \<lparr>entry_id = ''lifelog_1'', title = ''Team meeting notes'',
      startTime = ''2025-11-05T09:00:00Z'', endTime = ''2025-11-05T10:00:00Z'',
      contents = [\<lparr>content = ''Budget review'', item_type = heading2, item_startTime = None,
                   item_endTime = None, startOffsetMs = None, endOffsetMs = None,
                   speakerName = None\<rparr>],
      markdown = None, isStarred = False, updatedAt = None\<rparr>"

definition grocery_entry :: LifelogEntry where
  "grocery_entry =
     \<lparr>entry_id = ''lifelog_2'', title = ''Grocery list'',
      startTime = ''2025-11-05T18:00:00Z'', endTime = ''2025-11-05T18:05:00Z'',
      contents = [\<lparr>content = ''Milk and eggs'', item_type = blockquote, item_startTime = None,
                   item_endTime = None, startOffsetMs = None, endOffsetMs = None,
                   speakerName = Some ''You''\<rparr>],
      markdown = Some ''# Grocery list'', isStarred = False, updatedAt = None\<rparr>"

definition example_page :: ListLifelogsResponse where
  "example_page = \<lparr>lifelogs = [meeting_entry, grocery_entry], meta = Some 2\<rparr>"

definition example_remote :: "request \<Rightarrow> thrown + ListLifelogsResponse" where
  "example_remote rq = Inr example_page"

definition example_search :: "string \<Rightarrow> SearchLifelogsParams" where
  "example_search q =
     \<lparr>query = q, date_from = Some ''2025-11-05'', date_to = None, search_timezone = None,
      search_cursor = None, search_limit = 10\<rparr>"

definition example_entry_remote :: "request \<Rightarrow> thrown + GetLifelogResponse" where
  "example_entry_remote rq = Inr \<lparr>lifelog = meeting_entry\<rparr>"

definition no_args :: "string \<Rightarrow> jsv" where
  "no_args k = JUndefined"

section \<open>Basic facts\<close>

lemma str_includes_sublist: "str_includes s q \<longleftrightarrow> sublist q s"
  by (induction s) (auto simp: sublist_Cons_right)

lemma entry_matches_is_match: "entry_matches (toLowerCase q) entry \<longleftrightarrow> is_match q entry"
  by (auto simp: entry_matches_def is_match_def str_includes_sublist list_ex_iff split: option.splits)

text \<open>
  Two strings have the same lower-casing exactly when they have the same length and agree
  position by position up to the case of the letter.
\<close>

lemma toLowerCase_eq_iff:
  "toLowerCase a = toLowerCase b \<longleftrightarrow> list_all2 (\<lambda>c d. lower_char c = lower_char d) a b"
proof -
  have "toLowerCase a = toLowerCase b \<longleftrightarrow> list_all2 (=) (map lower_char a) (map lower_char b)"
    by (simp add: toLowerCase_def list.rel_eq)
  then show ?thesis
    by (simp add: list_all2_map1 list_all2_map2)
qed

lemma toLowerCase_idem: "toLowerCase (toLowerCase s) = toLowerCase s"
  by (induction s) (auto simp: toLowerCase_def lower_char_def Let_def)

lemma getLifelogs_sent:
  "fst (getLifelogs this remote params) = [Get (api this) ''/v1/lifelogs'' (Some params)]"
  by (simp add: getLifelogs_def api_get_def)

lemma getLifelogs_result:
  "snd (getLifelogs this remote params) =
     handleRequest (remote (Get (api this) ''/v1/lifelogs'' (Some params)))"
  by (simp add: getLifelogs_def api_get_def)

lemma searchLifelogs_Inr:
  assumes "getLifelogs this remote (search_list_params params) = (sent, Inr page)"
  shows "searchLifelogs this remote params =
           (sent, Inr \<lparr>lifelogs = filter (entry_matches (toLowerCase (query params))) (lifelogs page),
                       meta = meta page\<rparr>)"
  using assms by (simp add: searchLifelogs_def Let_def)

lemma searchLifelogs_Inl:
  assumes "getLifelogs this remote (search_list_params params) = (sent, Inl e)"
  shows "searchLifelogs this remote params = (sent, Inl e)"
  using assms by (simp add: searchLifelogs_def)

lemma searchLifelogs_sent:
  "fst (searchLifelogs this remote params) = fst (getLifelogs this remote (search_list_params params))"
  by (cases "getLifelogs this remote (search_list_params params)")
     (auto simp: searchLifelogs_def Let_def split: sum.splits)

lemma example_fetch:
  "getLifelogs example_client example_remote (search_list_params (example_search q)) =
     ([Get (api example_client) ''/v1/lifelogs'' (Some (search_list_params (example_search q)))],
      Inr example_page)"
  by (simp add: getLifelogs_def api_get_def example_remote_def handleRequest_def)

lemma meeting_matches: "entry_matches ''meeting'' meeting_entry"
  by code_simp

lemma grocery_no_match: "\<not> entry_matches ''meeting'' grocery_entry"
  by code_simp

lemma lower_MEETING: "toLowerCase ''MEETING'' = ''meeting''"
  by code_simp

lemma lower_meeting: "toLowerCase ''meeting'' = ''meeting''"
  by code_simp

lemma meeting_title_lower: "toLowerCase (title meeting_entry) = ''team meeting notes''"
  by code_simp

lemma holiday_no_match: "\<not> entry_matches ''holiday'' meeting_entry" "\<not> entry_matches ''holiday'' grocery_entry"
  by code_simp+

lemma lower_holiday: "toLowerCase ''holiday'' = ''holiday''"
  by code_simp

lemma getLifelogs_failure:
  assumes "remote (Get (api this) ''/v1/lifelogs'' (Some params)) = Inl t"
  shows "snd (getLifelogs this remote params) = handleRequest (Inl t)"
  using assms by (simp add: getLifelogs_def api_get_def handleRequest_def split: thrown.splits)

lemma getLifelog_failure:
  assumes "remote (Get (api this) (''/v1/lifelogs/'' @ lifelogId) None) = Inl t"
  shows "snd (getLifelog this remote lifelogId) = handleRequest (Inl t)"
  using assms by (simp add: getLifelog_def api_get_def handleRequest_def Let_def split: thrown.splits)

lemma show_404: "show_nat 404 = ''404''"
  by code_simp

lemma issues_empty_iff:
  "issues schema args = [] \<longleftrightarrow> (\<forall>(k, ok) \<in> set schema. ok (args k))"
  by (auto simp: issues_def filter_empty_conv)

lemma getLifelogs_tool_rejects:
  assumes "issues getLifelogs_schema args \<noteq> []"
  shows "getLifelogs_tool this remote args =
           ([], Inl (ValidationError (hd (issues getLifelogs_schema args))))"
  using assms by (simp add: getLifelogs_tool_def Let_def)

lemma getLifelogs_tool_accepts:
  assumes "issues getLifelogs_schema args = []"
  shows "getLifelogs_tool this remote args =
           getLifelogs this remote
                \<lparr>date = the_optional_string (args ''date''),
                 timezone = the_optional_string (args ''timezone''),
                 start_time = the_optional_string (args ''start_time''),
                 end_time = the_optional_string (args ''end_time''),
                 cursor = the_optional_string (args ''cursor''),
                 sort_direction = the_optional_sort_direction (args ''sort_direction''),
                 limit = the_limit (args ''limit'')\<rparr>"
  using assms by (simp add: getLifelogs_tool_def Let_def)

lemma limit_issue:
  "\<not> is_limit (args ''limit'') \<Longrightarrow> issues getLifelogs_schema args \<noteq> []"
  by (simp add: issues_empty_iff getLifelogs_schema_def)

lemma limit_only_issue:
  assumes "issues getLifelogs_schema (args(''limit'' := JUndefined)) = []" "is_limit (args ''limit'')"
  shows "issues getLifelogs_schema args = []"
  using assms by (simp add: issues_empty_iff getLifelogs_schema_def)

lemma no_args_parse: "issues getLifelogs_schema (no_args(''limit'' := JUndefined)) = []"
  by (simp add: issues_def getLifelogs_schema_def no_args_def is_optional_string_def
      is_optional_sort_direction_def is_limit_def)

section \<open>Properties of the client\<close>

text \<open>
  C1. Whenever the fetch returns a page, the search returns a page too, and an entry is in
  it if and only if it is an entry of the fetched page and the lower-cased query is a
  substring of its lower-cased title, or of its lower-cased markdown when it has one, or
  of the lower-cased content of at least one of its content items. Nothing but substring
  containment decides the match. (The statement holds for every query, the non-empty
  ones in particular.)
\<close>

theorem searchLifelogs_match_iff:
  assumes "getLifelogs this remote (search_list_params params) = (sent, Inr page)"
  shows "\<exists>res. searchLifelogs this remote params = (sent, Inr res) \<and>
           (\<forall>entry. entry \<in> set (lifelogs res) \<longleftrightarrow>
              entry \<in> set (lifelogs page) \<and>
              (sublist (toLowerCase (query params)) (toLowerCase (title entry))
               \<or> (\<exists>m. markdown entry = Some m \<and> sublist (toLowerCase (query params)) (toLowerCase m))
               \<or> (\<exists>item \<in> set (contents entry).
                      sublist (toLowerCase (query params)) (toLowerCase (content item)))))"
  using searchLifelogs_Inr [OF assms]
  by (simp add: entry_matches_is_match is_match_def)

theorem searchLifelogs_match_iff_witness:
  "meeting_entry \<in> set (lifelogs (projr (snd (searchLifelogs example_client example_remote (example_search ''meeting'')))))
   \<and> sublist ''meeting'' (toLowerCase (title meeting_entry))"
proof -
  from searchLifelogs_match_iff [OF example_fetch, of "''meeting''"]
  obtain res where r: "searchLifelogs example_client example_remote (example_search ''meeting'') =
        ([Get (api example_client) ''/v1/lifelogs'' (Some (search_list_params (example_search ''meeting'')))], Inr res)"
    and m: "\<And>entry. entry \<in> set (lifelogs res) \<longleftrightarrow>
              entry \<in> set (lifelogs example_page) \<and>
              (sublist (toLowerCase (query (example_search ''meeting''))) (toLowerCase (title entry))
               \<or> (\<exists>m. markdown entry = Some m \<and> sublist (toLowerCase (query (example_search ''meeting''))) (toLowerCase m))
               \<or> (\<exists>item \<in> set (contents entry).
                      sublist (toLowerCase (query (example_search ''meeting''))) (toLowerCase (content item))))"
    by blast
  have s: "sublist ''meeting'' (toLowerCase (title meeting_entry))"
    by (simp add: meeting_title_lower str_includes_sublist [symmetric])
  have "meeting_entry \<in> set (lifelogs res)"
    using s by (subst m) (simp add: example_page_def example_search_def lower_meeting)
  with r s show ?thesis by simp
qed

text \<open>
  C2. The search sends exactly one request: the list request whose date is \<open>date_from\<close>,
  whose cursor and limit are those of the search, and whose other filters are unset.
  \<open>date_to\<close> and the time zone of the search have no effect: whatever they are set to,
  the search sends the same request and returns the same answer.
\<close>

theorem searchLifelogs_fetch_params:
  "fst (searchLifelogs this remote params) =
     [Get (api this) ''/v1/lifelogs''
        (Some \<lparr>date = date_from params, timezone = None, start_time = None, end_time = None,
               cursor = search_cursor params, sort_direction = None,
               limit = search_limit params\<rparr>)]
   \<and> searchLifelogs this remote (params\<lparr>date_to := d, search_timezone := tz\<rparr>) =
       searchLifelogs this remote params"
proof
  show "fst (searchLifelogs this remote params) =
     [Get (api this) ''/v1/lifelogs''
        (Some \<lparr>date = date_from params, timezone = None, start_time = None, end_time = None,
               cursor = search_cursor params, sort_direction = None,
               limit = search_limit params\<rparr>)]"
    by (simp add: searchLifelogs_sent getLifelogs_sent search_list_params_def)
  have "search_list_params (params\<lparr>date_to := d, search_timezone := tz\<rparr>) = search_list_params params"
    by (simp add: search_list_params_def)
  then show "searchLifelogs this remote (params\<lparr>date_to := d, search_timezone := tz\<rparr>) =
       searchLifelogs this remote params"
    by (simp add: searchLifelogs_def Let_def split: prod.splits sum.splits)
qed

theorem searchLifelogs_fetch_params_witness:
  "fst (searchLifelogs example_client example_remote (example_search ''meeting'')) =
     [Get (api example_client) ''/v1/lifelogs''
        (Some \<lparr>date = Some ''2025-11-05'', timezone = None, start_time = None, end_time = None,
               cursor = None, sort_direction = None, limit = 10\<rparr>)]
   \<and> searchLifelogs example_client example_remote
        ((example_search ''meeting'')\<lparr>date_to := Some ''2025-11-30'', search_timezone := Some ''Europe/Paris''\<rparr>) =
      searchLifelogs example_client example_remote (example_search ''meeting'')"
  using searchLifelogs_fetch_params [where this = example_client and remote = example_remote
      and params = "example_search ''meeting''" and d = "Some ''2025-11-30''"
      and tz = "Some ''Europe/Paris''"]
  by (simp add: example_search_def)

text \<open>
  C3. Whenever the fetch returns a page, the entries of the page the search returns are
  the matching entries of the fetched page in the order they had there, and its metadata
  is the metadata of the fetched page, unchanged: the count is that of the page before
  filtering, not the number of matches.
\<close>

theorem searchLifelogs_order_meta:
  assumes "getLifelogs this remote (search_list_params params) = (sent, Inr page)"
  shows "\<exists>res. searchLifelogs this remote params = (sent, Inr res)
           \<and> lifelogs res = filter (is_match (query params)) (lifelogs page)
           \<and> subseq (lifelogs res) (lifelogs page)
           \<and> meta res = meta page"
  using searchLifelogs_Inr [OF assms]
  by (simp add: entry_matches_is_match cong: filter_cong)

theorem searchLifelogs_order_meta_witness:
  "searchLifelogs example_client example_remote (example_search ''meeting'') =
     ([Get (api example_client) ''/v1/lifelogs'' (Some (search_list_params (example_search ''meeting'')))],
      Inr \<lparr>lifelogs = [meeting_entry], meta = Some 2\<rparr>)"
proof -
  from searchLifelogs_order_meta [OF example_fetch, of "''meeting''"]
  obtain res where r: "searchLifelogs example_client example_remote (example_search ''meeting'') =
        ([Get (api example_client) ''/v1/lifelogs'' (Some (search_list_params (example_search ''meeting'')))], Inr res)"
    and l: "lifelogs res = filter (is_match (query (example_search ''meeting''))) (lifelogs example_page)"
    and m: "meta res = meta example_page"
    by blast
  have q: "query (example_search ''meeting'') = ''meeting''"
    by (simp add: example_search_def)
  have "lifelogs res = [meeting_entry]"
    using meeting_matches grocery_no_match
    by (simp add: l q example_page_def entry_matches_is_match [symmetric] lower_meeting)
  moreover have "meta res = Some 2"
    by (simp add: m example_page_def)
  ultimately have "res = \<lparr>lifelogs = [meeting_entry], meta = Some 2\<rparr>"
    by (cases res) simp
  with r show ?thesis by simp
qed

text \<open>
  C4. A call of the \<open>getLifelogs\<close> tool whose limit is a number below 1 or above 10 is
  rejected with a validation error and sends no request. When the limit is between 1 and
  10 and the other arguments parse, one list request is sent, and its limit is the given
  number.
\<close>

theorem getLifelogs_tool_limit:
  assumes "args ''limit'' = JNum x"
  shows "(x < 1 \<or> 10 < x \<longrightarrow>
            (\<exists>k. getLifelogs_tool this remote args = ([], Inl (ValidationError k))))
       \<and> (1 \<le> x \<and> x \<le> 10 \<and> issues getLifelogs_schema (args(''limit'' := JUndefined)) = [] \<longrightarrow>
            (\<exists>p. fst (getLifelogs_tool this remote args) = [Get (api this) ''/v1/lifelogs'' (Some p)]
                 \<and> limit p = x))"
proof (intro conjI impI)
  assume "x < 1 \<or> 10 < x"
  with assms have "\<not> is_limit (args ''limit'')"
    by (auto simp: is_limit_def)
  then show "\<exists>k. getLifelogs_tool this remote args = ([], Inl (ValidationError k))"
    using getLifelogs_tool_rejects [OF limit_issue] by blast
next
  assume a: "1 \<le> x \<and> x \<le> 10 \<and> issues getLifelogs_schema (args(''limit'' := JUndefined)) = []"
  with assms have "is_limit (args ''limit'')"
    by (simp add: is_limit_def)
  with a have "issues getLifelogs_schema args = []"
    using limit_only_issue by blast
  from getLifelogs_tool_accepts [OF this] assms
  show "\<exists>p. fst (getLifelogs_tool this remote args) = [Get (api this) ''/v1/lifelogs'' (Some p)]
                 \<and> limit p = x"
    by (simp add: getLifelogs_sent the_limit_def)
qed

theorem getLifelogs_tool_limit_witness:
  "getLifelogs_tool example_client example_remote (no_args(''limit'' := JNum 0)) =
      ([], Inl (ValidationError ''limit''))
   \<and> getLifelogs_tool example_client example_remote (no_args(''limit'' := JNum 11)) =
      ([], Inl (ValidationError ''limit''))
   \<and> fst (getLifelogs_tool example_client example_remote (no_args(''limit'' := JNum 3))) =
      [Get (api example_client) ''/v1/lifelogs''
         (Some \<lparr>date = None, timezone = None, start_time = None, end_time = None,
                cursor = None, sort_direction = None, limit = 3\<rparr>)]"
proof -
  have i: "issues getLifelogs_schema (no_args(''limit'' := JNum 0)) = [''limit'']"
          "issues getLifelogs_schema (no_args(''limit'' := JNum 11)) = [''limit'']"
    by (simp_all add: issues_def getLifelogs_schema_def no_args_def is_optional_string_def
      is_optional_sort_direction_def is_limit_def)
  from getLifelogs_tool_limit [of "no_args(''limit'' := JNum 0)" 0 example_client example_remote]
  obtain k where k: "getLifelogs_tool example_client example_remote (no_args(''limit'' := JNum 0)) =
      ([], Inl (ValidationError k))"
    by auto
  then have "k = ''limit''"
    by (simp add: getLifelogs_tool_def Let_def i)
  with k have z: "getLifelogs_tool example_client example_remote (no_args(''limit'' := JNum 0)) =
      ([], Inl (ValidationError ''limit''))"
    by simp
  from getLifelogs_tool_limit [of "no_args(''limit'' := JNum 11)" 11 example_client example_remote]
  obtain k' where k': "getLifelogs_tool example_client example_remote (no_args(''limit'' := JNum 11)) =
      ([], Inl (ValidationError k'))"
    by auto
  then have "k' = ''limit''"
    by (simp add: getLifelogs_tool_def Let_def i)
  with k' have e: "getLifelogs_tool example_client example_remote (no_args(''limit'' := JNum 11)) =
      ([], Inl (ValidationError ''limit''))"
    by simp
  from getLifelogs_tool_limit [of "no_args(''limit'' := JNum 3)" 3 example_client example_remote]
    no_args_parse
  obtain p where p: "fst (getLifelogs_tool example_client example_remote (no_args(''limit'' := JNum 3))) =
      [Get (api example_client) ''/v1/lifelogs'' (Some p)]" and "limit p = 3"
    by auto
  have "issues getLifelogs_schema (no_args(''limit'' := JNum 3)) = []"
    by (simp add: issues_def getLifelogs_schema_def no_args_def is_optional_string_def
      is_optional_sort_direction_def is_limit_def)
  from getLifelogs_tool_accepts [OF this, of example_client example_remote] p
  have "p = \<lparr>date = None, timezone = None, start_time = None, end_time = None,
                cursor = None, sort_direction = None, limit = 3\<rparr>"
    by (simp add: getLifelogs_sent no_args_def the_optional_string_def
        the_optional_sort_direction_def the_limit_def)
  with z e p show ?thesis by simp
qed

text \<open>
  C5. Two searches that differ only in their query strings, the two queries having the
  same lower-casing (they differ in letter case only), send the same request and return
  the same page.
\<close>

theorem searchLifelogs_case_insensitive:
  assumes "toLowerCase q1 = toLowerCase q2"
  shows "searchLifelogs this remote (params\<lparr>query := q1\<rparr>) =
         searchLifelogs this remote (params\<lparr>query := q2\<rparr>)"
proof -
  have "search_list_params (params\<lparr>query := q1\<rparr>) = search_list_params (params\<lparr>query := q2\<rparr>)"
    by (simp add: search_list_params_def)
  with assms show ?thesis
    by (simp add: searchLifelogs_def Let_def split: prod.splits sum.splits)
qed

theorem searchLifelogs_case_insensitive_witness:
  "toLowerCase ''MEETING'' = toLowerCase ''meeting''
   \<and> searchLifelogs example_client example_remote (example_search ''MEETING'') =
     searchLifelogs example_client example_remote (example_search ''meeting'')"
proof -
  have h: "toLowerCase ''MEETING'' = toLowerCase ''meeting''"
    by (simp add: lower_MEETING lower_meeting)
  from searchLifelogs_case_insensitive [OF h, of example_client example_remote "example_search ''x''"]
  show ?thesis using h by (simp add: example_search_def)
qed

text \<open>
  C6. When the fetch returns a page of which no entry matches, the search returns a page
  with no entry and the metadata of the fetched page, not an error. The search ends in an
  error exactly when the fetch it makes ends in that error.
\<close>

theorem searchLifelogs_no_match_no_error:
  "(\<forall>sent page.
      getLifelogs this remote (search_list_params params) = (sent, Inr page)
      \<and> (\<forall>entry \<in> set (lifelogs page). \<not> is_match (query params) entry)
      \<longrightarrow> searchLifelogs this remote params = (sent, Inr \<lparr>lifelogs = [], meta = meta page\<rparr>))
   \<and> (\<forall>e. snd (searchLifelogs this remote params) = Inl e
          \<longleftrightarrow> snd (getLifelogs this remote (search_list_params params)) = Inl e)"
proof (intro conjI allI impI)
  fix sent page
  assume a: "getLifelogs this remote (search_list_params params) = (sent, Inr page)
      \<and> (\<forall>entry \<in> set (lifelogs page). \<not> is_match (query params) entry)"
  then have "filter (entry_matches (toLowerCase (query params))) (lifelogs page) = []"
    by (simp add: entry_matches_is_match filter_empty_conv)
  with a show "searchLifelogs this remote params = (sent, Inr \<lparr>lifelogs = [], meta = meta page\<rparr>)"
    using searchLifelogs_Inr [of this remote params sent page] by simp
next
  fix e
  show "snd (searchLifelogs this remote params) = Inl e
          \<longleftrightarrow> snd (getLifelogs this remote (search_list_params params)) = Inl e"
    by (cases "getLifelogs this remote (search_list_params params)")
       (auto simp: searchLifelogs_def Let_def split: sum.splits)
qed

theorem searchLifelogs_no_match_no_error_witness:
  "searchLifelogs example_client example_remote (example_search ''holiday'') =
     ([Get (api example_client) ''/v1/lifelogs'' (Some (search_list_params (example_search ''holiday'')))],
      Inr \<lparr>lifelogs = [], meta = Some 2\<rparr>)"
proof -
  have n: "\<forall>entry \<in> set (lifelogs example_page). \<not> is_match (query (example_search ''holiday'')) entry"
    using holiday_no_match
    by (simp add: example_page_def example_search_def entry_matches_is_match [symmetric] lower_holiday)
  from searchLifelogs_no_match_no_error [of example_client example_remote "example_search ''holiday''"]
    example_fetch [of "''holiday''"] n
  have "searchLifelogs example_client example_remote (example_search ''holiday'') =
     ([Get (api example_client) ''/v1/lifelogs'' (Some (search_list_params (example_search ''holiday'')))],
      Inr \<lparr>lifelogs = [], meta = meta example_page\<rparr>)"
    by blast
  then show ?thesis by (simp add: example_page_def)
qed

text \<open>
  C7. A call of the \<open>getLifelogEntry\<close> tool whose id is the empty string, or is not a
  string at all, is rejected with a validation error and sends no request. With a
  non-empty id one request is sent, for that entry.
\<close>

theorem getLifelogEntry_tool_id:
  "(args ''lifelog_id'' = JStr [] \<longrightarrow>
      getLifelogEntry_tool this remote args = ([], Inl (ValidationError ''lifelog_id'')))
   \<and> ((\<forall>s. args ''lifelog_id'' \<noteq> JStr s) \<longrightarrow>
      getLifelogEntry_tool this remote args = ([], Inl (ValidationError ''lifelog_id'')))
   \<and> (\<forall>s. args ''lifelog_id'' = JStr s \<and> s \<noteq> [] \<longrightarrow>
      fst (getLifelogEntry_tool this remote args) = [Get (api this) (''/v1/lifelogs/'' @ s) None])"
proof (intro conjI impI allI)
  assume "args ''lifelog_id'' = JStr []"
  then show "getLifelogEntry_tool this remote args = ([], Inl (ValidationError ''lifelog_id''))"
    by (simp add: getLifelogEntry_tool_def issues_def getLifelogEntry_schema_def is_string_min1_def)
next
  assume "\<forall>s. args ''lifelog_id'' \<noteq> JStr s"
  then have "\<not> is_string_min1 (args ''lifelog_id'')"
    by (cases "args ''lifelog_id''") (simp_all add: is_string_min1_def)
  then show "getLifelogEntry_tool this remote args = ([], Inl (ValidationError ''lifelog_id''))"
    by (simp add: getLifelogEntry_tool_def issues_def getLifelogEntry_schema_def)
next
  fix s
  assume "args ''lifelog_id'' = JStr s \<and> s \<noteq> []"
  then show "fst (getLifelogEntry_tool this remote args) = [Get (api this) (''/v1/lifelogs/'' @ s) None]"
    by (cases s) (simp_all add: getLifelogEntry_tool_def issues_def getLifelogEntry_schema_def
        is_string_min1_def the_string_def getLifelog_def api_get_def)
qed

theorem getLifelogEntry_tool_id_witness:
  "getLifelogEntry_tool example_client example_entry_remote (no_args(''lifelog_id'' := JStr '''')) =
     ([], Inl (ValidationError ''lifelog_id''))
   \<and> getLifelogEntry_tool example_client example_entry_remote no_args =
     ([], Inl (ValidationError ''lifelog_id''))
   \<and> fst (getLifelogEntry_tool example_client example_entry_remote (no_args(''lifelog_id'' := JStr ''lifelog_1''))) =
     [Get (api example_client) ''/v1/lifelogs/lifelog_1'' None]"
  using getLifelogEntry_tool_id [of "no_args(''lifelog_id'' := JStr '''')" example_client example_entry_remote]
    getLifelogEntry_tool_id [of no_args example_client example_entry_remote]
    getLifelogEntry_tool_id [of "no_args(''lifelog_id'' := JStr ''lifelog_1'')" example_client example_entry_remote]
  by (simp add: no_args_def)

text \<open>
  C8, as stated, fails when the body of the error response has an empty message: the
  field is present, yet the raised error carries the transport's message.
\<close>

theorem handleRequest_empty_body_message_counterexample:
  "data_message \<lparr>status = 500, data_message = Some ''''\<rparr> = Some ''''
   \<and> (handleRequest (Inl (AxiosError (Some \<lparr>status = 500, data_message = Some ''''\<rparr>)
                              ''Request failed with status code 500'')) :: error + ListLifelogsResponse)
       = Inl (Error ''Limitless API error (500): Request failed with status code 500'')
   \<and> (handleRequest (Inl (AxiosError (Some \<lparr>status = 500, data_message = Some ''''\<rparr>)
                              ''Request failed with status code 500'')) :: error + ListLifelogsResponse)
       \<noteq> Inl (Error (''Limitless API error (500): '' @ ''''))"
  by code_simp

text \<open>
  C8, amended. For an axios error the raised error carries the status of the response when
  there is a response and its status is not 0, and \<^verbatim>\<open>unknown\<close> otherwise; its message
  is the message field of the response body when that field is present and not empty, and
  the transport's own message otherwise. Any other thrown value is wrapped in an error
  that carries its message.
\<close>

theorem handleRequest_error_message:
  "(handleRequest (Inl (AxiosError resp msg)) :: error + 'a) =
     Inl (Error (''Limitless API error ('' @
        (case resp of
           Some rs \<Rightarrow> if status rs \<noteq> 0 then show_nat (status rs) else ''unknown''
         | None \<Rightarrow> ''unknown'') @
        ''): '' @
        (case resp of
           Some rs \<Rightarrow> (case data_message rs of Some m \<Rightarrow> if m \<noteq> [] then m else msg | None \<Rightarrow> msg)
         | None \<Rightarrow> msg)))
   \<and> (handleRequest (Inl (JsError msg)) :: error + 'a) = Inl (Error (''Limitless API error: '' @ msg))
   \<and> (handleRequest (Inl (NonError s)) :: error + 'a) = Inl (Error (''Limitless API error: '' @ s))"
  by (simp add: handleRequest_def or_else_def truthy_def split: option.splits)

theorem handleRequest_error_message_witness:
  "(handleRequest (Inl (AxiosError (Some \<lparr>status = 404, data_message = Some ''Lifelog not found''\<rparr>)
                           ''Request failed with status code 404'')) :: error + GetLifelogResponse)
     = Inl (Error ''Limitless API error (404): Lifelog not found'')
   \<and> (handleRequest (Inl (AxiosError (Some \<lparr>status = 404, data_message = None\<rparr>)
                           ''Request failed with status code 404'')) :: error + GetLifelogResponse)
     = Inl (Error ''Limitless API error (404): Request failed with status code 404'')
   \<and> (handleRequest (Inl (AxiosError None ''Network Error'')) :: error + GetLifelogResponse)
     = Inl (Error ''Limitless API error (unknown): Network Error'')
   \<and> (handleRequest (Inl (JsError ''boom'')) :: error + GetLifelogResponse)
     = Inl (Error ''Limitless API error: boom'')"
proof -
  note a = handleRequest_error_message [where ?'a = GetLifelogResponse
      and resp = "Some \<lparr>status = 404, data_message = Some ''Lifelog not found''\<rparr>"
      and msg = "''Request failed with status code 404''" and s = "[]"]
  note b = handleRequest_error_message [where ?'a = GetLifelogResponse
      and resp = "Some \<lparr>status = 404, data_message = None\<rparr>"
      and msg = "''Request failed with status code 404''" and s = "[]"]
  note c = handleRequest_error_message [where ?'a = GetLifelogResponse
      and resp = None and msg = "''Network Error''" and s = "[]"]
  note d = handleRequest_error_message [where ?'a = GetLifelogResponse
      and resp = None and msg = "''boom''" and s = "[]"]
  from a b c d show ?thesis
    by (simp add: show_404)
qed

text \<open>
  C9. With no API key in the configuration (absent or empty) and none in the environment
  (absent or empty), the constructor throws, so no client and no axios instance exist.
  Every client the constructor does return carries a non-blank key in its
  \<^verbatim>\<open>X-API-Key\<close> header.
\<close>

theorem constructor_requires_api_key:
  "((apiKey config = None \<or> apiKey config = Some []) \<and> (env = None \<or> env = Some []) \<longrightarrow>
       new_LimitlessClient config env = Inl (Error api_key_required))
   \<and> (\<forall>this. new_LimitlessClient config env = Inr this \<longrightarrow>
         (\<exists>k. map_of (headers (api this)) ''X-API-Key'' = Some k \<and> k \<noteq> [] \<and> trim k \<noteq> []))"
proof (intro conjI impI allI)
  assume "(apiKey config = None \<or> apiKey config = Some []) \<and> (env = None \<or> env = Some [])"
  then show "new_LimitlessClient config env = Inl (Error api_key_required)"
    by (auto simp: new_LimitlessClient_def or_else_def truthy_def)
next
  fix this
  assume "new_LimitlessClient config env = Inr this"
  then show "\<exists>k. map_of (headers (api this)) ''X-API-Key'' = Some k \<and> k \<noteq> [] \<and> trim k \<noteq> []"
    by (auto simp: new_LimitlessClient_def split: option.splits if_splits)
qed

theorem constructor_requires_api_key_witness:
  "new_LimitlessClient \<lparr>apiKey = None, baseUrl = ''https://api.limitless.ai''\<rparr> None =
     Inl (Error api_key_required)
   \<and> new_LimitlessClient \<lparr>apiKey = Some '''', baseUrl = ''https://api.limitless.ai''\<rparr> None =
     Inl (Error api_key_required)
   \<and> new_LimitlessClient \<lparr>apiKey = Some ''sk-test'', baseUrl = ''https://api.limitless.ai''\<rparr> None =
     Inr example_client"
proof -
  have "new_LimitlessClient \<lparr>apiKey = Some ''sk-test'', baseUrl = ''https://api.limitless.ai''\<rparr> None =
     Inr example_client"
    by (simp add: new_LimitlessClient_def or_else_def truthy_def trim_def is_space_def example_client_def)
  then show ?thesis
    using constructor_requires_api_key [of "\<lparr>apiKey = None, baseUrl = ''https://api.limitless.ai''\<rparr>" None]
      constructor_requires_api_key [of "\<lparr>apiKey = Some '''', baseUrl = ''https://api.limitless.ai''\<rparr>" None]
    by simp
qed

text \<open>
  C10. For an entry without markdown the match is decided by the title and the content
  items alone: the entry matches exactly when the lower-cased query is a substring of the
  lower-cased title or of the lower-cased content of one of its items. The missing field
  raises nothing (the optional chain yields undefined, which the test takes as false) and
  contributes no match.
\<close>

theorem entry_matches_without_markdown:
  assumes "markdown entry = None"
  shows "entry_matches (toLowerCase q) entry \<longleftrightarrow>
           sublist (toLowerCase q) (toLowerCase (title entry))
         \<or> (\<exists>item \<in> set (contents entry). sublist (toLowerCase q) (toLowerCase (content item)))"
  using assms by (simp add: entry_matches_is_match is_match_def)

theorem entry_matches_without_markdown_witness:
  "markdown meeting_entry = None
   \<and> entry_matches (toLowerCase ''MEETING'') meeting_entry
   \<and> \<not> entry_matches (toLowerCase ''holiday'') meeting_entry"
proof -
  have h: "markdown meeting_entry = None"
    by (simp add: meeting_entry_def)
  have "sublist ''meeting'' (toLowerCase (title meeting_entry))"
    by (simp add: meeting_title_lower str_includes_sublist [symmetric])
  then have "entry_matches (toLowerCase ''MEETING'') meeting_entry"
    using entry_matches_without_markdown [OF h, of "''MEETING''"] by (simp add: lower_MEETING)
  moreover have "\<not> entry_matches (toLowerCase ''holiday'') meeting_entry"
    using holiday_no_match by (simp add: lower_holiday)
  ultimately show ?thesis using h by simp
qed

end
